theory Spec2Isabelle
  imports Complex_Main
begin

section \<open>Trade persistence and statistics of TradeTrackr (server/storage.ts)\<close>

text \<open>
  The development embeds the class \<^verbatim>\<open>DatabaseStorage\<close> of \<^verbatim>\<open>server/storage.ts\<close> and the
  table and schemas of \<^verbatim>\<open>shared/schema.ts\<close> it works on.

  Conventions of the embedding:
  \<^item> The database is an explicit state: the rows of the table \<^verbatim>\<open>trades\<close>, in insertion
    order, and the identifiers of the table \<^verbatim>\<open>users\<close>. Every operation takes the state and
    the mutating ones return the new one.
  \<^item> A rejected promise is the left summand of the result (\<open>Inl StoreError\<close>).
  \<^item> \<^verbatim>\<open>new Date()\<close>, the \<^verbatim>\<open>now()\<close> column default and \<^verbatim>\<open>gen_random_uuid()\<close> are
    arguments (\<open>now\<close>, \<open>newId\<close>); a timestamp is a number of milliseconds.
  \<^item> A \<^verbatim>\<open>decimal\<close> column is a string in TypeScript. It is modelled by the number it
    denotes, and \<^verbatim>\<open>parseFloat\<close>, the arithmetic on JavaScript numbers and
    \<^verbatim>\<open>toString\<close> by exact rational arithmetic: the rounding of IEEE doubles and of the
    column's scale is outside the model. A string that denotes a number is non-empty,
    hence truthy, also when the number is zero. Strings that denote no finite number
    (the empty string, other text, \<^verbatim>\<open>NaN\<close>) are not inputs of the model.
  \<^item> A \<^verbatim>\<open>varchar\<close> column is a string: \<^verbatim>\<open>type\<close> and \<^verbatim>\<open>status\<close> are not
    restricted to the values the comments of the schema name.
\<close>

subsection \<open>Data model (shared/schema.ts)\<close>

type_synonym timestamp = int
type_synonym decimal = rat

text \<open>
  A property of a parsed request body whose column is nullable: left out
  (\<^verbatim>\<open>undefined\<close>), \<^verbatim>\<open>null\<close>, or a value. A property of a \<^verbatim>\<open>notNull\<close> column is an
  \<open>option\<close>: left out or a value.
\<close>

datatype 'a field = Absent | Null | Val 'a

text \<open>A row of \<^verbatim>\<open>trades\<close> (\<^verbatim>\<open>typeof trades.$inferSelect\<close>).\<close>

record Trade =
  t_id :: string
  t_userId :: string
  t_symbol :: string
  t_type :: string
  t_quantity :: int
  t_entryPrice :: decimal
  t_exitPrice :: "decimal option"
  t_pnl :: "decimal option"
  t_status :: string
  t_notes :: "string option"
  t_entryTime :: "timestamp option"
  t_exitTime :: "timestamp option"
  t_createdAt :: "timestamp option"
  t_updatedAt :: "timestamp option"

text \<open>
  \<^verbatim>\<open>insertTradeSchema\<close>: the insert schema of the table without \<^verbatim>\<open>id\<close>, \<^verbatim>\<open>userId\<close>,
  \<^verbatim>\<open>createdAt\<close>, \<^verbatim>\<open>updatedAt\<close>. Columns that are \<^verbatim>\<open>notNull\<close> and have no default are
  required; \<^verbatim>\<open>status\<close> has a default and may be left out.
\<close>

record InsertTrade =
  i_symbol :: string
  i_type :: string
  i_quantity :: int
  i_entryPrice :: decimal
  i_exitPrice :: "decimal field"
  i_pnl :: "decimal field"
  i_status :: "string option"
  i_notes :: "string field"
  i_entryTime :: "timestamp field"
  i_exitTime :: "timestamp field"

text \<open>\<^verbatim>\<open>updateTradeSchema\<close>: the same schema, \<^verbatim>\<open>.partial()\<close>: every property may be left out.\<close>

record UpdateTrade =
  u_symbol :: "string option"
  u_type :: "string option"
  u_quantity :: "int option"
  u_entryPrice :: "decimal option"
  u_exitPrice :: "decimal field"
  u_pnl :: "decimal field"
  u_status :: "string option"
  u_notes :: "string field"
  u_entryTime :: "timestamp field"
  u_exitTime :: "timestamp field"

record store =
  users :: "string list"
  trades :: "Trade list"

datatype error = StoreError

subsection \<open>The statements sent to the store\<close>

text \<open>A property written into a nullable column that has no default.\<close>

fun nullable :: "'a field \<Rightarrow> 'a option" where
  "nullable Absent = None"
| "nullable Null = None"
| "nullable (Val v) = Some v"

text \<open>A property written into a nullable column with a default: only a property left out takes it.\<close>

fun orDefault :: "'a \<Rightarrow> 'a field \<Rightarrow> 'a option" where
  "orDefault d Absent = Some d"
| "orDefault d Null = None"
| "orDefault d (Val v) = Some v"

text \<open>
  \<^verbatim>\<open>db.insert(trades).values(row).returning()\<close>: \<^verbatim>\<open>id\<close> is the primary key and
  \<^verbatim>\<open>user_id\<close> references \<^verbatim>\<open>users.id\<close>; a violated constraint rejects the statement.
\<close>

definition insertRow :: "Trade \<Rightarrow> store \<Rightarrow> error + (Trade \<times> store)" where
  "insertRow row s =
     (if t_id row \<in> set (map t_id (trades s)) then Inl StoreError
      else if t_userId row \<notin> set (users s) then Inl StoreError
      else Inr (row, s\<lparr>trades := trades s @ [row]\<rparr>))"

text \<open>\<^verbatim>\<open>and(eq(trades.id, tradeId), eq(trades.userId, userId))\<close>\<close>

definition matches :: "string \<Rightarrow> string \<Rightarrow> Trade \<Rightarrow> bool" where
  "matches tradeId userId r \<longleftrightarrow> t_id r = tradeId \<and> t_userId r = userId"

text \<open>
  \<^verbatim>\<open>.set({ ...updateData, updatedAt: now })\<close> on one row: a property left out keeps the
  column, \<^verbatim>\<open>null\<close> clears it, a value overwrites it.
\<close>

fun setOpt :: "'a option \<Rightarrow> 'a \<Rightarrow> 'a" where
  "setOpt None old = old"
| "setOpt (Some v) old = v"

fun setField :: "'a field \<Rightarrow> 'a option \<Rightarrow> 'a option" where
  "setField Absent old = old"
| "setField Null old = None"
| "setField (Val v) old = Some v"

definition setColumns :: "UpdateTrade \<Rightarrow> timestamp \<Rightarrow> Trade \<Rightarrow> Trade" where
  "setColumns u now r =
     r\<lparr>t_symbol := setOpt (u_symbol u) (t_symbol r),
       t_type := setOpt (u_type u) (t_type r),
       t_quantity := setOpt (u_quantity u) (t_quantity r),
       t_entryPrice := setOpt (u_entryPrice u) (t_entryPrice r),
       t_exitPrice := setField (u_exitPrice u) (t_exitPrice r),
       t_pnl := setField (u_pnl u) (t_pnl r),
       t_status := setOpt (u_status u) (t_status r),
       t_notes := setField (u_notes u) (t_notes r),
       t_entryTime := setField (u_entryTime u) (t_entryTime r),
       t_exitTime := setField (u_exitTime u) (t_exitTime r),
       t_updatedAt := Some now\<rparr>"

text \<open>
  \<^verbatim>\<open>gte(trades.createdAt, d)\<close> and \<^verbatim>\<open>lte(trades.createdAt, d)\<close>: a comparison with
  a \<^verbatim>\<open>NULL\<close> column selects nothing.
\<close>

fun gte :: "timestamp option \<Rightarrow> timestamp \<Rightarrow> bool" where
  "gte None d = False"
| "gte (Some c) d = (d \<le> c)"

fun lte :: "timestamp option \<Rightarrow> timestamp \<Rightarrow> bool" where
  "lte None d = False"
| "lte (Some c) d = (c \<le> d)"

text \<open>
  \<^verbatim>\<open>orderBy(desc(trades.createdAt))\<close>: newest first, \<^verbatim>\<open>NULL\<close> before every value; rows
  with equal keys keep their order (the store leaves it open).
\<close>

fun before :: "timestamp option \<Rightarrow> timestamp option \<Rightarrow> bool" where
  "before None b = True"
| "before (Some a) None = False"
| "before (Some a) (Some b) = (b \<le> a)"

fun insertDesc :: "Trade \<Rightarrow> Trade list \<Rightarrow> Trade list" where
  "insertDesc r [] = [r]"
| "insertDesc r (x # xs) =
     (if before (t_createdAt r) (t_createdAt x) then r # x # xs else x # insertDesc r xs)"

definition orderByCreatedAtDesc :: "Trade list \<Rightarrow> Trade list" where
  "orderByCreatedAtDesc rows = foldr insertDesc rows []"

subsection \<open>Trade operations (class DatabaseStorage)\<close>

definition getTrades :: "string \<Rightarrow> nat option \<Rightarrow> store \<Rightarrow> Trade list" where
  "getTrades userId limit s =
     take (case limit of None \<Rightarrow> 10 | Some n \<Rightarrow> n)
       (orderByCreatedAtDesc (filter (\<lambda>r. t_userId r = userId) (trades s)))"

definition getTradesByDateRange :: "string \<Rightarrow> timestamp \<Rightarrow> timestamp \<Rightarrow> store \<Rightarrow> Trade list" where
  "getTradesByDateRange userId startDate endDate s =
     orderByCreatedAtDesc
       (filter (\<lambda>r. t_userId r = userId \<and> gte (t_createdAt r) startDate \<and> lte (t_createdAt r) endDate)
          (trades s))"

text \<open>
  \<^verbatim>\<open>trade.exitPrice && trade.entryPrice\<close>: \<^verbatim>\<open>entryPrice\<close> is required and denotes a number, so
  the test is whether \<^verbatim>\<open>exitPrice\<close> is a value. The properties \<^verbatim>\<open>pnl\<close>, \<^verbatim>\<open>status\<close> and
  \<^verbatim>\<open>exitTime\<close> of the input are overwritten in the inserted object.
\<close>

definition createTrade ::
  "string \<Rightarrow> timestamp \<Rightarrow> string \<Rightarrow> InsertTrade \<Rightarrow> store \<Rightarrow> error + (Trade \<times> store)" where
  "createTrade newId now userId trade s =
     (let pnl = (case i_exitPrice trade of
                   Val exitPrice \<Rightarrow>
                     (let entryPrice = i_entryPrice trade; quantity = of_int (i_quantity trade) in
                      if i_type trade = ''long''
                      then Some ((exitPrice - entryPrice) * quantity)
                      else Some ((entryPrice - exitPrice) * quantity))
                 | _ \<Rightarrow> None)
      in insertRow
           \<lparr>t_id = newId,
            t_userId = userId,
            t_symbol = i_symbol trade,
            t_type = i_type trade,
            t_quantity = i_quantity trade,
            t_entryPrice = i_entryPrice trade,
            t_exitPrice = nullable (i_exitPrice trade),
            t_pnl = pnl,
            t_status = (case i_exitPrice trade of Val _ \<Rightarrow> ''closed'' | _ \<Rightarrow> ''open''),
            t_notes = nullable (i_notes trade),
            t_entryTime = orDefault now (i_entryTime trade),
            t_exitTime = (case i_exitPrice trade of Val _ \<Rightarrow> Some now | _ \<Rightarrow> None),
            t_createdAt = Some now,
            t_updatedAt = Some now\<rparr> s)"

text \<open>
  The object \<^verbatim>\<open>updateData\<close> of \<^verbatim>\<open>updateTrade\<close>: the test reads the two prices of the partial
  input; \<^verbatim>\<open>trade.quantity || 0\<close> is 0 for a quantity left out; \<^verbatim>\<open>trade.type === 'long'\<close>
  is false for a type left out.
\<close>

definition updateData :: "timestamp \<Rightarrow> UpdateTrade \<Rightarrow> UpdateTrade" where
  "updateData now trade =
     (case (u_exitPrice trade, u_entryPrice trade) of
        (Val exitPrice, Some entryPrice) \<Rightarrow>
          (let quantity = of_int (case u_quantity trade of None \<Rightarrow> 0 | Some q \<Rightarrow> q) in
           trade\<lparr>u_pnl := Val (if u_type trade = Some ''long''
                                then (exitPrice - entryPrice) * quantity
                                else (entryPrice - exitPrice) * quantity),
                 u_status := Some ''closed'',
                 u_exitTime := Val now\<rparr>)
      | _ \<Rightarrow> trade)"

text \<open>
  \<^verbatim>\<open>const [updatedTrade] = await db.update(trades).set(...).where(...).returning()\<close>:
  the first updated row, \<^verbatim>\<open>undefined\<close> when no row matched.
\<close>

definition updateTrade ::
  "timestamp \<Rightarrow> string \<Rightarrow> string \<Rightarrow> UpdateTrade \<Rightarrow> store \<Rightarrow> error + (Trade option \<times> store)" where
  "updateTrade now tradeId userId trade s =
     (let rows = map (\<lambda>r. if matches tradeId userId r
                          then setColumns (updateData now trade) now r else r) (trades s);
          returning = filter (matches tradeId userId) rows
      in Inr (case returning of [] \<Rightarrow> None | updatedTrade # _ \<Rightarrow> Some updatedTrade,
              s\<lparr>trades := rows\<rparr>))"

definition deleteTrade :: "string \<Rightarrow> string \<Rightarrow> store \<Rightarrow> error + store" where
  "deleteTrade tradeId userId s =
     Inr (s\<lparr>trades := filter (\<lambda>r. \<not> matches tradeId userId r) (trades s)\<rparr>)"

subsection \<open>Statistics (getTradingStats)\<close>

record TradingStats =
  todayTrades :: nat
  yesterdayTrades :: nat
  totalTrades :: nat
  winRate :: rat
  totalPnL :: rat

text \<open>
  \<^verbatim>\<open>today.setHours(0, 0, 0, 0)\<close>: midnight of the server's local day, for a zone \<open>tz\<close>
  milliseconds ahead of UTC. \<^verbatim>\<open>setDate\<close> with \<^verbatim>\<open>getDate()\<close> plus or minus 1 moves by one
  day, of 24 hours (a zone without a clock change that day).
\<close>

definition msPerDay :: int where
  "msPerDay = 86400000"

definition setHours0 :: "int \<Rightarrow> timestamp \<Rightarrow> timestamp" where
  "setHours0 tz now = now - (now + tz) mod msPerDay"

text \<open>\<^verbatim>\<open>Math.round\<close>: the nearest integer, a half rounded up.\<close>

definition Math_round :: "rat \<Rightarrow> rat" where
  "Math_round x = of_int \<lfloor>x + 1 / 2\<rfloor>"

definition closedTrades :: "string \<Rightarrow> store \<Rightarrow> Trade list" where
  "closedTrades userId s =
     filter (\<lambda>r. t_userId r = userId \<and> t_status r = ''closed'') (trades s)"

definition winningTrades :: "Trade list \<Rightarrow> Trade list" where
  "winningTrades rows =
     filter (\<lambda>trade. case t_pnl trade of None \<Rightarrow> False | Some p \<Rightarrow> 0 < p) rows"

definition getTradingStats :: "int \<Rightarrow> timestamp \<Rightarrow> string \<Rightarrow> store \<Rightarrow> TradingStats" where
  "getTradingStats tz now userId s =
     (let today = setHours0 tz now;
          tomorrow = today + msPerDay;
          yesterday = today - msPerDay;
          todayResult = length (filter (\<lambda>r. t_userId r = userId
                            \<and> gte (t_createdAt r) today \<and> lte (t_createdAt r) tomorrow) (trades s));
          yesterdayResult = length (filter (\<lambda>r. t_userId r = userId
                            \<and> gte (t_createdAt r) yesterday \<and> lte (t_createdAt r) today) (trades s));
          totalResult = length (filter (\<lambda>r. t_userId r = userId) (trades s));
          closedRows = closedTrades userId s;
          winning = winningTrades closedRows;
          rate = (if 0 < length closedRows
                  then (of_nat (length winning) / of_nat (length closedRows)) * 100 else 0);
          total = foldl (\<lambda>sum trade. sum + (case t_pnl trade of None \<Rightarrow> 0 | Some p \<Rightarrow> p)) 0 closedRows
      in \<lparr>todayTrades = todayResult,
          yesterdayTrades = yesterdayResult,
          totalTrades = totalResult,
          winRate = Math_round (rate * 100) / 100,
          totalPnL = Math_round (total * 100) / 100\<rparr>)"

subsection \<open>Notions of the specification\<close>

text \<open>
  The four facts of a closed trade, set together: the status is \<open>closed\<close> iff the exit
  price is set iff the profit and loss is set iff the exit time is set.
\<close>

definition closedInvariant :: "Trade \<Rightarrow> bool" where
  "closedInvariant r \<longleftrightarrow>
     (t_status r = ''closed'') = (t_exitPrice r \<noteq> None)
     \<and> (t_exitPrice r \<noteq> None) = (t_pnl r \<noteq> None)
     \<and> (t_pnl r \<noteq> None) = (t_exitTime r \<noteq> None)"

text \<open>A partial input that supplies both prices, and one that supplies none of the four facts.\<close>

definition suppliesBothPrices :: "UpdateTrade \<Rightarrow> bool" where
  "suppliesBothPrices u \<longleftrightarrow>
     u_entryPrice u \<noteq> None \<and> (case u_exitPrice u of Val _ \<Rightarrow> True | _ \<Rightarrow> False)"

definition suppliesNoClosingFact :: "UpdateTrade \<Rightarrow> bool" where
  "suppliesNoClosingFact u \<longleftrightarrow>
     u_exitPrice u = Absent \<and> u_pnl u = Absent \<and> u_status u = None \<and> u_exitTime u = Absent"

text \<open>
  The stores reached from an empty table of trades by \<open>createTrade\<close> with any input,
  \<open>deleteTrade\<close>, and \<open>updateTrade\<close> with a partial input of one of these two kinds.
\<close>

inductive reachable :: "store \<Rightarrow> bool" where
  empty: "reachable \<lparr>users = us, trades = []\<rparr>"
| create: "reachable s \<Longrightarrow> createTrade newId now userId trade s = Inr (t, s') \<Longrightarrow> reachable s'"
| update: "reachable s \<Longrightarrow> suppliesBothPrices u \<or> suppliesNoClosingFact u \<Longrightarrow>
     updateTrade now tradeId userId u s = Inr (t, s') \<Longrightarrow> reachable s'"
| delete: "reachable s \<Longrightarrow> deleteTrade tradeId userId s = Inr s' \<Longrightarrow> reachable s'"

text \<open>The trades a user owns, in the order of the table.\<close>

definition tradesOf :: "string \<Rightarrow> store \<Rightarrow> Trade list" where
  "tradesOf userId s = filter (\<lambda>r. t_userId r = userId) (trades s)"

text \<open>
  \<open>r\<close> is \<open>x\<close> rounded to two decimal places: a whole number of hundredths, at most
  half a hundredth away from \<open>x\<close>.
\<close>

definition roundedTo2 :: "rat \<Rightarrow> rat \<Rightarrow> bool" where
  "roundedTo2 x r \<longleftrightarrow> of_int \<lfloor>r * 100\<rfloor> = r * 100 \<and> \<bar>r - x\<bar> \<le> 1 / 200"

text \<open>The profit and loss of a trade, a missing one taken as 0.\<close>

definition pnlOrZero :: "Trade \<Rightarrow> rat" where
  "pnlOrZero r = (case t_pnl r of None \<Rightarrow> 0 | Some p \<Rightarrow> p)"


text \<open>The closed trades of a user.\<close>

definition userClosedTrades :: "string \<Rightarrow> store \<Rightarrow> Trade list" where
  "userClosedTrades userId s = filter (\<lambda>r. t_status r = ''closed'') (tradesOf userId s)"

subsection \<open>Example data\<close>

definition emptyStore :: store where
  "emptyStore = \<lparr>users = [''alice'', ''bob''], trades = []\<rparr>"

definition longInput :: InsertTrade where
  "longInput =
     \<lparr>i_symbol = ''AAPL'', i_type = ''long'', i_quantity = 5, i_entryPrice = 100,
      i_exitPrice = Val 110, i_pnl = Absent, i_status = None, i_notes = Absent,
      i_entryTime = Absent, i_exitTime = Absent\<rparr>"


definition openInput :: InsertTrade where
  "openInput = longInput\<lparr>i_exitPrice := Absent\<rparr>"

text \<open>The row that \<open>createTrade\<close> stores for \<open>openInput\<close>, owner \<open>uid\<close>, at time \<open>now\<close>.\<close>

definition openRow :: "string \<Rightarrow> string \<Rightarrow> timestamp \<Rightarrow> Trade" where
  "openRow tid uid now =
     \<lparr>t_id = tid, t_userId = uid, t_symbol = ''AAPL'', t_type = ''long'', t_quantity = 5,
      t_entryPrice = 100, t_exitPrice = None, t_pnl = None, t_status = ''open'',
      t_notes = None, t_entryTime = Some now, t_exitTime = None,
      t_createdAt = Some now, t_updatedAt = Some now\<rparr>"

text \<open>A closed row with the given profit and loss.\<close>

definition closedRow :: "string \<Rightarrow> string \<Rightarrow> timestamp \<Rightarrow> decimal \<Rightarrow> Trade" where
  "closedRow tid uid now p =
     (openRow tid uid now)\<lparr>t_exitPrice := Some (100 + p / 5), t_pnl := Some p,
        t_status := ''closed'', t_exitTime := Some now\<rparr>"

text \<open>The empty partial input, and two partial inputs of a request that closes a trade.\<close>

definition noChange :: UpdateTrade where
  "noChange =
     \<lparr>u_symbol = None, u_type = None, u_quantity = None, u_entryPrice = None,
      u_exitPrice = Absent, u_pnl = Absent, u_status = None, u_notes = Absent,
      u_entryTime = Absent, u_exitTime = Absent\<rparr>"

definition exitOnly :: UpdateTrade where
  "exitOnly = noChange\<lparr>u_exitPrice := Val 110\<rparr>"

definition bothPrices :: UpdateTrade where
  "bothPrices = noChange\<lparr>u_entryPrice := Some 100, u_exitPrice := Val 110\<rparr>"

text \<open>Stores holding one trade of \<open>alice\<close>: an open one, and one closed with a profit of 50.\<close>

definition aliceStore :: store where
  "aliceStore = emptyStore\<lparr>trades := [openRow ''t1'' ''alice'' 1000]\<rparr>"



text \<open>A partial input that sets the status alone.\<close>

definition statusOnly :: UpdateTrade where
  "statusOnly = noChange\<lparr>u_status := Some ''closed''\<rparr>"

text \<open>
  Trades of \<open>alice\<close> and \<open>bob\<close> for the statistics: time 259200000 is midnight of the
  fourth day, \<open>alice\<close> has three closed trades, two of them with a profit.
\<close>

definition statsStore :: store where
  "statsStore = emptyStore\<lparr>trades :=
     [closedRow ''t1'' ''alice'' 1000 50,
      closedRow ''t2'' ''alice'' 2000 (-20),
      closedRow ''t3'' ''alice'' 259200000 (21 / 2),
      openRow ''t4'' ''alice'' 259205000,
      closedRow ''t5'' ''bob'' 259200000 (-7)]\<rparr>"

text \<open>The same store without the trade of \<open>bob\<close>.\<close>

definition statsStoreAlice :: store where
  "statsStoreAlice = statsStore\<lparr>trades := tradesOf ''alice'' statsStore\<rparr>"

section \<open>Properties\<close>

text \<open>The equations that unfold the example data.\<close>

lemmas example_defs = statsStore_def aliceStore_def emptyStore_def closedRow_def openRow_def
  userClosedTrades_def tradesOf_def pnlOrZero_def

subsection \<open>Auxiliary facts about the update statement\<close>

lemma matches_setColumns [simp]: "matches tradeId userId (setColumns u now r) = matches tradeId userId r"
  by (simp add: matches_def setColumns_def)

lemma returning_rows:
  "filter (matches tradeId userId)
     (map (\<lambda>r. if matches tradeId userId r then setColumns u now r else r) rows)
   = map (setColumns u now) (filter (matches tradeId userId) rows)"
  by (induction rows) auto

lemma map_no_match:
  "\<forall>r\<in>set rows. \<not> matches tradeId userId r \<Longrightarrow>
   map (\<lambda>r. if matches tradeId userId r then f r else r) rows = rows"
  by (induction rows) auto

lemma updateTrade_eq:
  "updateTrade now tradeId userId trade s =
     Inr (map_option (setColumns (updateData now trade) now) (find (matches tradeId userId) (trades s)),
          s\<lparr>trades := map (\<lambda>r. if matches tradeId userId r
                          then setColumns (updateData now trade) now r else r) (trades s)\<rparr>)"
proof -
  have "(case map f (filter P xs) of [] \<Rightarrow> None | x # _ \<Rightarrow> Some x) = map_option f (find P xs)"
    for f :: "Trade \<Rightarrow> Trade" and P xs
    by (induction xs) auto
  then show ?thesis
    by (simp add: updateTrade_def returning_rows Let_def)
qed


lemma updateData_both:
  "u_entryPrice trade = Some e \<Longrightarrow> u_exitPrice trade = Val x \<Longrightarrow>
   updateData now trade =
     trade\<lparr>u_pnl := Val (if u_type trade = Some ''long''
                          then (x - e) * of_int (case u_quantity trade of None \<Rightarrow> 0 | Some q \<Rightarrow> q)
                          else (e - x) * of_int (case u_quantity trade of None \<Rightarrow> 0 | Some q \<Rightarrow> q)),
           u_status := Some ''closed'', u_exitTime := Val now\<rparr>"
  by (simp add: updateData_def Let_def)

lemma setColumns_closing:
  assumes "u_entryPrice trade = Some e" and "u_exitPrice trade = Val x"
  shows "t_status (setColumns (updateData now trade) now r) = ''closed''"
    and "t_exitTime (setColumns (updateData now trade) now r) = Some now"
    and "t_entryPrice (setColumns (updateData now trade) now r) = e"
    and "t_exitPrice (setColumns (updateData now trade) now r) = Some x"
    and "t_pnl (setColumns (updateData now trade) now r) = Some (if u_type trade = Some ''long''
                  then (x - e) * of_int (case u_quantity trade of None \<Rightarrow> 0 | Some q \<Rightarrow> q)
                  else (e - x) * of_int (case u_quantity trade of None \<Rightarrow> 0 | Some q \<Rightarrow> q))"
  using assms by (simp_all add: updateData_both setColumns_def)



subsection \<open>updateTrade with both prices in the partial input\<close>




subsection \<open>updateTrade with the quantity left out\<close>



subsection \<open>Operations on a pair that matches no trade\<close>





subsection \<open>createTrade\<close>

text \<open>What a successful \<open>createTrade\<close> stores and returns.\<close>

lemma createTrade_Inr:
  assumes "createTrade newId now userId trade s = Inr (t, s')"
  shows "s' = s\<lparr>trades := trades s @ [t]\<rparr>"
    and "t_id t = newId" and "t_userId t = userId"
    and "t_entryPrice t = i_entryPrice trade"
    and "t_quantity t = i_quantity trade"
    and "t_type t = i_type trade"
    and "t_exitPrice t = nullable (i_exitPrice trade)"
    and "t_status t = (case i_exitPrice trade of Val _ \<Rightarrow> ''closed'' | _ \<Rightarrow> ''open'')"
    and "t_exitTime t = (case i_exitPrice trade of Val _ \<Rightarrow> Some now | _ \<Rightarrow> None)"
    and "t_pnl t = (case i_exitPrice trade of
                      Val exitPrice \<Rightarrow>
                        if i_type trade = ''long''
                        then Some ((exitPrice - i_entryPrice trade) * of_int (i_quantity trade))
                        else Some ((i_entryPrice trade - exitPrice) * of_int (i_quantity trade))
                    | _ \<Rightarrow> None)"
    and "t_createdAt t = Some now"
    and "newId \<notin> set (map t_id (trades s))" and "userId \<in> set (users s)"
  using assms
  by (auto simp add: createTrade_def insertRow_def Let_def split: if_splits field.splits)



subsection \<open>The four facts of a closed trade\<close>

lemma closedInvariant_setColumns_closing:
  "suppliesBothPrices u \<Longrightarrow> closedInvariant (setColumns (updateData now u) now r)"
proof -
  assume "suppliesBothPrices u"
  then obtain e x where "u_entryPrice u = Some e" and "u_exitPrice u = Val x"
    by (auto simp add: suppliesBothPrices_def split: field.splits)
  from setColumns_closing [OF this, of now r] show ?thesis
    by (simp add: closedInvariant_def)
qed

lemma closedInvariant_setColumns_other:
  "suppliesNoClosingFact u \<Longrightarrow> closedInvariant r \<Longrightarrow>
   closedInvariant (setColumns (updateData now u) now r)"
  by (simp add: suppliesNoClosingFact_def updateData_def setColumns_def closedInvariant_def)

lemma closedInvariant_created:
  "createTrade newId now userId trade s = Inr (t, s') \<Longrightarrow> closedInvariant t"
  using createTrade_Inr(7,8,9,10) [of newId now userId trade s t s']
  by (cases "i_exitPrice trade") (simp_all add: closedInvariant_def)

text \<open>
  C2 (as the code has it): in every store reached from an empty table through
  \<open>createTrade\<close> with any input, \<open>deleteTrade\<close>, and \<open>updateTrade\<close> calls whose partial
  input either supplies both \<open>entryPrice\<close> and \<open>exitPrice\<close> or supplies none of
  \<open>exitPrice\<close>, \<open>pnl\<close>, \<open>status\<close> and \<open>exitTime\<close>, every trade has status \<open>closed\<close> iff
  its exit price is set iff its profit and loss is set iff its exit time is set.
\<close>

theorem reachable_closedInvariant:
  "reachable s \<Longrightarrow> \<forall>r\<in>set (trades s). closedInvariant r"
proof (induction rule: reachable.induct)
  case (empty us)
  show ?case by simp
next
  case (create s newId now userId trade t s')
  from createTrade_Inr(1) [OF create.hyps(2)] have "set (trades s') = insert t (set (trades s))"
    by simp
  with create.IH closedInvariant_created [OF create.hyps(2)] show ?case
    by simp
next
  case (update s u now tradeId userId t s')
  from update.hyps(3) have s': "trades s' =
      map (\<lambda>r. if matches tradeId userId r then setColumns (updateData now u) now r else r) (trades s)"
    by (auto simp add: updateTrade_eq)
  have "closedInvariant (setColumns (updateData now u) now r)" if "closedInvariant r" for r
    using update.hyps(2) that
    by (auto intro: closedInvariant_setColumns_closing closedInvariant_setColumns_other)
  with update.IH show ?case
    by (auto simp add: s')
next
  case (delete s tradeId userId s')
  from delete.hyps(2) have "set (trades s') \<subseteq> set (trades s)"
    by (auto simp add: deleteTrade_def)
  with delete.IH show ?case
    by blast
qed

text \<open>An open trade is created and then closed by an update that supplies both prices.\<close>

theorem reachable_closedInvariant_witness:
  "reachable (emptyStore\<lparr>trades := [(openRow ''t1'' ''alice'' 1000)\<lparr>t_exitPrice := Some 110,
      t_pnl := Some 0, t_status := ''closed'', t_exitTime := Some 2000,
      t_updatedAt := Some 2000\<rparr>]\<rparr>)
   \<and> closedInvariant ((openRow ''t1'' ''alice'' 1000)\<lparr>t_exitPrice := Some 110,
      t_pnl := Some 0, t_status := ''closed'', t_exitTime := Some 2000,
      t_updatedAt := Some 2000\<rparr>)"
proof -
  let ?r = "(openRow ''t1'' ''alice'' 1000)\<lparr>t_exitPrice := Some 110,
      t_pnl := Some 0, t_status := ''closed'', t_exitTime := Some 2000,
      t_updatedAt := Some 2000\<rparr>"
  have "reachable emptyStore"
    unfolding emptyStore_def by (rule reachable.empty)
  moreover have "createTrade ''t1'' 1000 ''alice'' openInput emptyStore =
      Inr (openRow ''t1'' ''alice'' 1000, aliceStore)"
    by (simp add: createTrade_def Let_def insertRow_def openInput_def longInput_def
        emptyStore_def aliceStore_def openRow_def)
  ultimately have "reachable aliceStore"
    by (rule reachable.create)
  moreover have "suppliesBothPrices bothPrices \<or> suppliesNoClosingFact bothPrices"
    by (simp add: suppliesBothPrices_def bothPrices_def noChange_def)
  moreover have "updateTrade 2000 ''t1'' ''alice'' bothPrices aliceStore =
      Inr (Some ?r, emptyStore\<lparr>trades := [?r]\<rparr>)"
    by (simp add: updateTrade_def updateData_def setColumns_def matches_def aliceStore_def
        emptyStore_def openRow_def bothPrices_def noChange_def)
  ultimately have r: "reachable (emptyStore\<lparr>trades := [?r]\<rparr>)"
    by (rule reachable.update)
  from reachable_closedInvariant [OF r] have "closedInvariant ?r"
    by simp
  with r show ?thesis
    by (rule conjI)
qed

text \<open>
  The partial schema lets a request set each of the four facts alone. An open trade is
  created and then updated with an exit price alone: the exit price is set and the status
  stays \<open>open\<close>. Updated with a status alone, it is \<open>closed\<close> without an exit price.
\<close>

theorem closedInvariant_counterexample:
  "createTrade ''t1'' 1000 ''alice'' openInput emptyStore =
     Inr (openRow ''t1'' ''alice'' 1000, aliceStore)
   \<and> updateTrade 2000 ''t1'' ''alice'' exitOnly aliceStore =
     Inr (Some ((openRow ''t1'' ''alice'' 1000)\<lparr>t_exitPrice := Some 110, t_updatedAt := Some 2000\<rparr>),
          emptyStore\<lparr>trades :=
            [(openRow ''t1'' ''alice'' 1000)\<lparr>t_exitPrice := Some 110, t_updatedAt := Some 2000\<rparr>]\<rparr>)
   \<and> \<not> closedInvariant
         ((openRow ''t1'' ''alice'' 1000)\<lparr>t_exitPrice := Some 110, t_updatedAt := Some 2000\<rparr>)
   \<and> updateTrade 2000 ''t1'' ''alice'' statusOnly aliceStore =
     Inr (Some ((openRow ''t1'' ''alice'' 1000)\<lparr>t_status := ''closed'', t_updatedAt := Some 2000\<rparr>),
          emptyStore\<lparr>trades :=
            [(openRow ''t1'' ''alice'' 1000)\<lparr>t_status := ''closed'', t_updatedAt := Some 2000\<rparr>]\<rparr>)
   \<and> \<not> closedInvariant
         ((openRow ''t1'' ''alice'' 1000)\<lparr>t_status := ''closed'', t_updatedAt := Some 2000\<rparr>)"
  by (simp add: createTrade_def Let_def insertRow_def openInput_def longInput_def
      updateTrade_def updateData_def setColumns_def matches_def aliceStore_def
      emptyStore_def openRow_def exitOnly_def statusOnly_def noChange_def closedInvariant_def)

subsection \<open>Statistics\<close>

lemma floor_half: "\<lfloor>(1 / 2 :: rat)\<rfloor> = 0"
  by (rule floor_unique) simp_all

lemma Math_round_0: "Math_round 0 = 0"
  by (simp add: Math_round_def floor_half)

lemma Math_round_rounded: "roundedTo2 x (Math_round (x * 100) / 100)"
proof -
  define n where "n = \<lfloor>x * 100 + 1 / 2\<rfloor>"
  have lo: "of_int n \<le> x * 100 + 1 / 2"
    unfolding n_def by (rule of_int_floor_le)
  have hi: "x * 100 + 1 / 2 < of_int n + 1"
    unfolding n_def by linarith
  have "\<bar>of_int n / 100 - x\<bar> \<le> 1 / 200"
    using lo hi by linarith
  then show ?thesis
    by (simp add: roundedTo2_def Math_round_def n_def)
qed

lemma Math_round_exact:
  "of_int \<lfloor>x * 100\<rfloor> = x * 100 \<Longrightarrow> Math_round (x * 100) / 100 = x"
proof -
  assume a: "of_int \<lfloor>x * 100\<rfloor> = x * 100"
  have "\<lfloor>of_int \<lfloor>x * 100\<rfloor> + (1 / 2 :: rat)\<rfloor> = \<lfloor>x * 100\<rfloor>"
    by (simp add: floor_unique)
  then have "\<lfloor>x * 100 + 1 / 2\<rfloor> = \<lfloor>x * 100\<rfloor>"
    by (simp add: a)
  then show ?thesis
    by (simp add: Math_round_def a)
qed

lemma closedTrades_user: "closedTrades userId s = userClosedTrades userId s"
  by (simp add: closedTrades_def userClosedTrades_def tradesOf_def conj_commute)

lemma winningTrades_pnl: "winningTrades rows = filter (\<lambda>r. 0 < pnlOrZero r) rows"
proof -
  have "(case t_pnl r of None \<Rightarrow> False | Some p \<Rightarrow> 0 < p) = (0 < pnlOrZero r)" for r
    by (simp add: pnlOrZero_def split: option.splits)
  then show ?thesis
    by (simp add: winningTrades_def)
qed

lemma foldl_pnl:
  "foldl (\<lambda>sum trade. sum + (case t_pnl trade of None \<Rightarrow> 0 | Some p \<Rightarrow> p)) a rows
   = a + sum_list (map pnlOrZero rows)"
  by (induction rows arbitrary: a) (simp_all add: pnlOrZero_def)

lemma winRate_eq:
  "winRate (getTradingStats tz now userId s) =
     Math_round ((if userClosedTrades userId s = [] then 0
        else of_nat (length (filter (\<lambda>r. 0 < pnlOrZero r) (userClosedTrades userId s)))
               / of_nat (length (userClosedTrades userId s)) * 100) * 100) / 100"
  by (simp add: getTradingStats_def Let_def closedTrades_user winningTrades_pnl)

lemma totalPnL_eq:
  "totalPnL (getTradingStats tz now userId s) =
     Math_round (sum_list (map pnlOrZero (userClosedTrades userId s)) * 100) / 100"
  by (simp add: getTradingStats_def Let_def closedTrades_user foldl_pnl)

text \<open>
  C5: for every user, \<open>winRate\<close> of \<open>getTradingStats\<close> is the number of the user's closed
  trades with a profit and loss above 0, divided by the number of the user's closed trades,
  times 100, rounded to two decimal places; it is 0 when the user has no closed trade; for
  a user with exactly 3 closed trades of which 2 have a profit and loss above 0 it is 66.67.
\<close>

theorem winRate_rounded:
  "(userClosedTrades userId s = [] \<longrightarrow> winRate (getTradingStats tz now userId s) = 0)
   \<and> (userClosedTrades userId s \<noteq> [] \<longrightarrow>
        roundedTo2
          (of_nat (length (filter (\<lambda>r. 0 < pnlOrZero r) (userClosedTrades userId s)))
             / of_nat (length (userClosedTrades userId s)) * 100)
          (winRate (getTradingStats tz now userId s)))
   \<and> (length (userClosedTrades userId s) = 3
        \<and> length (filter (\<lambda>r. 0 < pnlOrZero r) (userClosedTrades userId s)) = 2 \<longrightarrow>
        winRate (getTradingStats tz now userId s) = 6667 / 100)"
proof (intro conjI impI)
  assume "userClosedTrades userId s = []"
  then show "winRate (getTradingStats tz now userId s) = 0"
    by (simp add: winRate_eq Math_round_0)
next
  assume "userClosedTrades userId s \<noteq> []"
  then show "roundedTo2
          (of_nat (length (filter (\<lambda>r. 0 < pnlOrZero r) (userClosedTrades userId s)))
             / of_nat (length (userClosedTrades userId s)) * 100)
          (winRate (getTradingStats tz now userId s))"
    by (simp only: winRate_eq if_False Math_round_rounded)
next
  assume a: "length (userClosedTrades userId s) = 3
        \<and> length (filter (\<lambda>r. 0 < pnlOrZero r) (userClosedTrades userId s)) = 2"
  then have "userClosedTrades userId s \<noteq> []"
    by auto
  moreover have "\<lfloor>(40003 / 6 :: rat)\<rfloor> = 6667"
    by (simp add: floor_unique)
  ultimately show "winRate (getTradingStats tz now userId s) = 6667 / 100"
    using a by (simp add: winRate_eq Math_round_def)
qed

theorem winRate_rounded_witness:
  "length (userClosedTrades ''alice'' statsStore) = 3
   \<and> length (filter (\<lambda>r. 0 < pnlOrZero r) (userClosedTrades ''alice'' statsStore)) = 2
   \<and> winRate (getTradingStats 0 259205000 ''alice'' statsStore) = 6667 / 100
   \<and> roundedTo2 (2 / 3 * 100) (winRate (getTradingStats 0 259205000 ''alice'' statsStore))
   \<and> userClosedTrades ''alice'' aliceStore = []
   \<and> winRate (getTradingStats 0 259205000 ''alice'' aliceStore) = 0"
proof -
  have h: "length (userClosedTrades ''alice'' statsStore) = 3"
    "length (filter (\<lambda>r. 0 < pnlOrZero r) (userClosedTrades ''alice'' statsStore)) = 2"
    by (simp_all add: example_defs)
  have ne: "userClosedTrades ''alice'' statsStore \<noteq> []"
    using h(1) by auto
  have e: "userClosedTrades ''alice'' aliceStore = []"
    by (simp add: example_defs)
  from winRate_rounded [of "''alice''" statsStore 0 259205000]
    winRate_rounded [of "''alice''" aliceStore 0 259205000]
  show ?thesis
    using h ne e by simp
qed

text \<open>
  C6: for every user, \<open>totalPnL\<close> of \<open>getTradingStats\<close> is the sum of the profit and loss
  over the user's closed trades, a missing one taken as 0, rounded to two decimal places
  (the sum itself when it is a whole number of hundredths); for a user with no closed
  trade it is 0.
\<close>

theorem totalPnL_rounded:
  "roundedTo2 (sum_list (map pnlOrZero (userClosedTrades userId s)))
     (totalPnL (getTradingStats tz now userId s))
   \<and> (of_int \<lfloor>sum_list (map pnlOrZero (userClosedTrades userId s)) * 100\<rfloor>
         = sum_list (map pnlOrZero (userClosedTrades userId s)) * 100 \<longrightarrow>
       totalPnL (getTradingStats tz now userId s)
         = sum_list (map pnlOrZero (userClosedTrades userId s)))
   \<and> (userClosedTrades userId s = [] \<longrightarrow> totalPnL (getTradingStats tz now userId s) = 0)"
proof (intro conjI impI)
  show "roundedTo2 (sum_list (map pnlOrZero (userClosedTrades userId s)))
     (totalPnL (getTradingStats tz now userId s))"
    by (simp only: totalPnL_eq Math_round_rounded)
next
  assume "of_int \<lfloor>sum_list (map pnlOrZero (userClosedTrades userId s)) * 100\<rfloor>
         = sum_list (map pnlOrZero (userClosedTrades userId s)) * 100"
  then show "totalPnL (getTradingStats tz now userId s)
         = sum_list (map pnlOrZero (userClosedTrades userId s))"
    by (simp only: totalPnL_eq Math_round_exact)
next
  assume "userClosedTrades userId s = []"
  then show "totalPnL (getTradingStats tz now userId s) = 0"
    by (simp add: totalPnL_eq Math_round_0)
qed

theorem totalPnL_rounded_witness:
  "sum_list (map pnlOrZero (userClosedTrades ''alice'' statsStore)) = 81 / 2
   \<and> rat_of_int \<lfloor>81 / 2 * 100 :: rat\<rfloor> = 81 / 2 * 100
   \<and> totalPnL (getTradingStats 0 259205000 ''alice'' statsStore) = 81 / 2
   \<and> roundedTo2 (81 / 2) (totalPnL (getTradingStats 0 259205000 ''alice'' statsStore))
   \<and> userClosedTrades ''alice'' aliceStore = []
   \<and> totalPnL (getTradingStats 0 259205000 ''alice'' aliceStore) = 0"
proof -
  have h: "sum_list (map pnlOrZero (userClosedTrades ''alice'' statsStore)) = 81 / 2"
    by (simp add: example_defs)
  have e: "userClosedTrades ''alice'' aliceStore = []"
    by (simp add: example_defs)
  from totalPnL_rounded [of "''alice''" statsStore 0 259205000]
    totalPnL_rounded [of "''alice''" aliceStore 0 259205000]
  show ?thesis
    using e by (simp add: h)
qed







subsection \<open>Every operation is scoped by the owner\<close>

text \<open>
  Each query names the user in its filter, so each operation reads the rows of the user
  only and writes no row of another user.
\<close>

lemma set_insertDesc: "set (insertDesc r rows) = insert r (set rows)"
  by (induction rows) auto

lemma set_orderByCreatedAtDesc: "set (orderByCreatedAtDesc rows) = set rows"
  unfolding orderByCreatedAtDesc_def by (induction rows) (simp_all add: set_insertDesc)

lemma filter_owner:
  "filter (\<lambda>r. t_userId r = userId \<and> P r) (trades s) = filter P (tradesOf userId s)"
  by (simp add: tradesOf_def conj_commute)

lemma getTrades_owner:
  "getTrades userId limit s =
     take (case limit of None \<Rightarrow> 10 | Some n \<Rightarrow> n) (orderByCreatedAtDesc (tradesOf userId s))"
  by (simp add: getTrades_def tradesOf_def)

lemma getTradesByDateRange_owner:
  "getTradesByDateRange userId startDate endDate s =
     orderByCreatedAtDesc
       (filter (\<lambda>r. gte (t_createdAt r) startDate \<and> lte (t_createdAt r) endDate) (tradesOf userId s))"
  by (simp add: getTradesByDateRange_def filter_owner)

lemma getTrades_owned: "r \<in> set (getTrades userId limit s) \<Longrightarrow> t_userId r = userId"
proof -
  assume "r \<in> set (getTrades userId limit s)"
  then have "r \<in> set (orderByCreatedAtDesc (tradesOf userId s))"
    unfolding getTrades_owner by (rule in_set_takeD)
  then show ?thesis
    by (simp add: set_orderByCreatedAtDesc tradesOf_def)
qed

lemma getTradesByDateRange_owned:
  "r \<in> set (getTradesByDateRange userId startDate endDate s) \<Longrightarrow> t_userId r = userId"
  by (simp add: getTradesByDateRange_owner set_orderByCreatedAtDesc tradesOf_def)

lemma getTradingStats_owner:
  "getTradingStats tz now userId s =
     (let today = setHours0 tz now;
          rows = tradesOf userId s;
          closedRows = filter (\<lambda>r. t_status r = ''closed'') rows
      in \<lparr>todayTrades = length (filter (\<lambda>r. gte (t_createdAt r) today
                                        \<and> lte (t_createdAt r) (today + msPerDay)) rows),
          yesterdayTrades = length (filter (\<lambda>r. gte (t_createdAt r) (today - msPerDay)
                                        \<and> lte (t_createdAt r) today) rows),
          totalTrades = length rows,
          winRate = Math_round ((if 0 < length closedRows
                       then (of_nat (length (winningTrades closedRows)) / of_nat (length closedRows)) * 100
                       else 0) * 100) / 100,
          totalPnL = Math_round (foldl (\<lambda>sum trade. sum + (case t_pnl trade of None \<Rightarrow> 0 | Some p \<Rightarrow> p))
                        0 closedRows * 100) / 100\<rparr>)"
  by (simp add: getTradingStats_def closedTrades_def Let_def filter_owner) (simp add: tradesOf_def)

lemma tradesOf_updated:
  "tradesOf owner (s\<lparr>trades := map (\<lambda>r. if matches tradeId userId r then setColumns u now r else r) (trades s)\<rparr>)
   = map (\<lambda>r. if matches tradeId userId r then setColumns u now r else r) (tradesOf owner s)"
proof -
  have "t_userId (if matches tradeId userId r then setColumns u now r else r) = t_userId r" for r
    by (simp add: setColumns_def)
  then have "filter (\<lambda>r. t_userId r = owner) (map (\<lambda>r. if matches tradeId userId r then setColumns u now r else r) rows)
      = map (\<lambda>r. if matches tradeId userId r then setColumns u now r else r) (filter (\<lambda>r. t_userId r = owner) rows)" for rows
    by (induction rows) simp_all
  then show ?thesis
    by (simp add: tradesOf_def)
qed

lemma tradesOf_other_updated:
  "other \<noteq> userId \<Longrightarrow>
   map (\<lambda>r. if matches tradeId userId r then f r else r) (tradesOf other s) = tradesOf other s"
  by (rule map_no_match) (simp add: tradesOf_def matches_def)

lemma find_owner:
  "find (matches tradeId userId) (trades s) = find (matches tradeId userId) (tradesOf userId s)"
proof -
  have "find (matches tradeId userId) rows
      = find (matches tradeId userId) (filter (\<lambda>r. t_userId r = userId) rows)" for rows
    by (induction rows) (simp_all add: matches_def)
  then show ?thesis
    by (simp add: tradesOf_def)
qed

lemma tradesOf_deleted:
  "tradesOf owner (s\<lparr>trades := filter (\<lambda>r. \<not> matches tradeId userId r) (trades s)\<rparr>)
   = filter (\<lambda>r. \<not> matches tradeId userId r) (tradesOf owner s)"
  by (simp add: tradesOf_def conj_commute)

lemma tradesOf_other_deleted:
  "other \<noteq> userId \<Longrightarrow>
   filter (\<lambda>r. \<not> matches tradeId userId r) (tradesOf other s) = tradesOf other s"
  by (rule filter_True) (simp add: tradesOf_def matches_def)

lemma createTrade_row:
  "createTrade newId now userId trade s1 = Inr (t1, s1') \<Longrightarrow>
   createTrade newId now userId trade s2 = Inr (t2, s2') \<Longrightarrow> t1 = t2"
  by (auto simp add: createTrade_def insertRow_def Let_def split: if_splits)

text \<open>
  C4: every operation invoked for a user \<open>A\<close> (\<open>getTrades\<close>, \<open>getTradesByDateRange\<close>,
  \<open>getTradingStats\<close>, \<open>createTrade\<close>, \<open>updateTrade\<close>, \<open>deleteTrade\<close>) gives the same
  result in two stores that hold the same trades of \<open>A\<close>, returns only trades owned by
  \<open>A\<close>, and leaves the trades of every other user \<open>B\<close> as they were, whatever trade
  identifier it is given. (For \<open>createTrade\<close>, whether the store accepts the fresh
  identifier is a matter of the whole table; the statement is about the calls it accepts.)
\<close>

theorem operations_scoped_by_owner:
  assumes "tradesOf A s1 = tradesOf A s2" and "B \<noteq> A"
  shows "getTrades A limit s1 = getTrades A limit s2
       \<and> (\<forall>r\<in>set (getTrades A limit s1). t_userId r = A)
     \<and> getTradesByDateRange A startDate endDate s1 = getTradesByDateRange A startDate endDate s2
       \<and> (\<forall>r\<in>set (getTradesByDateRange A startDate endDate s1). t_userId r = A)
     \<and> getTradingStats tz now A s1 = getTradingStats tz now A s2
     \<and> (\<forall>t s1'. createTrade newId now A trade s1 = Inr (t, s1') \<longrightarrow>
           t_userId t = A \<and> tradesOf B s1' = tradesOf B s1
           \<and> (\<forall>t2 s2'. createTrade newId now A trade s2 = Inr (t2, s2') \<longrightarrow>
                 t2 = t \<and> tradesOf A s2' = tradesOf A s1'))
     \<and> (\<exists>t s1' s2'. updateTrade now tradeId A upd s1 = Inr (t, s1')
           \<and> updateTrade now tradeId A upd s2 = Inr (t, s2')
           \<and> (case t of None \<Rightarrow> True | Some r \<Rightarrow> t_userId r = A)
           \<and> tradesOf A s1' = tradesOf A s2' \<and> tradesOf B s1' = tradesOf B s1)
     \<and> (\<exists>s1' s2'. deleteTrade tradeId A s1 = Inr s1' \<and> deleteTrade tradeId A s2 = Inr s2'
           \<and> tradesOf A s1' = tradesOf A s2' \<and> tradesOf B s1' = tradesOf B s1)"
proof (intro conjI)
  show "getTrades A limit s1 = getTrades A limit s2"
    by (simp add: getTrades_owner assms(1))
  show "\<forall>r\<in>set (getTrades A limit s1). t_userId r = A"
    by (blast dest: getTrades_owned)
  show "getTradesByDateRange A startDate endDate s1 = getTradesByDateRange A startDate endDate s2"
    by (simp add: getTradesByDateRange_owner assms(1))
  show "\<forall>r\<in>set (getTradesByDateRange A startDate endDate s1). t_userId r = A"
    by (blast dest: getTradesByDateRange_owned)
  show "getTradingStats tz now A s1 = getTradingStats tz now A s2"
    by (simp only: getTradingStats_owner assms(1))
  show "\<forall>t s1'. createTrade newId now A trade s1 = Inr (t, s1') \<longrightarrow>
           t_userId t = A \<and> tradesOf B s1' = tradesOf B s1
           \<and> (\<forall>t2 s2'. createTrade newId now A trade s2 = Inr (t2, s2') \<longrightarrow>
                 t2 = t \<and> tradesOf A s2' = tradesOf A s1')"
  proof (intro allI impI conjI)
    fix t s1'
    assume c1: "createTrade newId now A trade s1 = Inr (t, s1')"
    note r1 = createTrade_Inr(1,3) [OF c1]
    show "t_userId t = A" by (rule r1(2))
    show "tradesOf B s1' = tradesOf B s1"
      using assms(2) r1 by (simp add: tradesOf_def)
    fix t2 s2'
    assume c2: "createTrade newId now A trade s2 = Inr (t2, s2')"
    show "t2 = t" by (rule createTrade_row [OF c2 c1])
    then show "tradesOf A s2' = tradesOf A s1'"
      using assms(1) r1 createTrade_Inr(1) [OF c2] by (simp add: tradesOf_def)
  qed
  show "\<exists>t s1' s2'. updateTrade now tradeId A upd s1 = Inr (t, s1')
           \<and> updateTrade now tradeId A upd s2 = Inr (t, s2')
           \<and> (case t of None \<Rightarrow> True | Some r \<Rightarrow> t_userId r = A)
           \<and> tradesOf A s1' = tradesOf A s2' \<and> tradesOf B s1' = tradesOf B s1"
  proof (intro exI conjI)
    show "updateTrade now tradeId A upd s1 = Inr
        (map_option (setColumns (updateData now upd) now) (find (matches tradeId A) (trades s1)),
         s1\<lparr>trades := map (\<lambda>r. if matches tradeId A r
                          then setColumns (updateData now upd) now r else r) (trades s1)\<rparr>)"
      by (rule updateTrade_eq)
    show "updateTrade now tradeId A upd s2 = Inr
        (map_option (setColumns (updateData now upd) now) (find (matches tradeId A) (trades s1)),
         s2\<lparr>trades := map (\<lambda>r. if matches tradeId A r
                          then setColumns (updateData now upd) now r else r) (trades s2)\<rparr>)"
      by (simp add: updateTrade_eq find_owner assms(1))
    show "case map_option (setColumns (updateData now upd) now) (find (matches tradeId A) (trades s1)) of
        None \<Rightarrow> True | Some r \<Rightarrow> t_userId r = A"
      by (auto simp add: find_Some_iff matches_def setColumns_def split: option.splits)
    show "tradesOf A (s1\<lparr>trades := map (\<lambda>r. if matches tradeId A r
                          then setColumns (updateData now upd) now r else r) (trades s1)\<rparr>)
        = tradesOf A (s2\<lparr>trades := map (\<lambda>r. if matches tradeId A r
                          then setColumns (updateData now upd) now r else r) (trades s2)\<rparr>)"
      by (simp only: tradesOf_updated assms(1))
    show "tradesOf B (s1\<lparr>trades := map (\<lambda>r. if matches tradeId A r
                          then setColumns (updateData now upd) now r else r) (trades s1)\<rparr>)
        = tradesOf B s1"
      by (simp only: tradesOf_updated tradesOf_other_updated [OF assms(2)])
  qed
  show "\<exists>s1' s2'. deleteTrade tradeId A s1 = Inr s1' \<and> deleteTrade tradeId A s2 = Inr s2'
           \<and> tradesOf A s1' = tradesOf A s2' \<and> tradesOf B s1' = tradesOf B s1"
  proof (intro exI conjI)
    show "deleteTrade tradeId A s1 = Inr (s1\<lparr>trades := filter (\<lambda>r. \<not> matches tradeId A r) (trades s1)\<rparr>)"
      by (simp add: deleteTrade_def)
    show "deleteTrade tradeId A s2 = Inr (s2\<lparr>trades := filter (\<lambda>r. \<not> matches tradeId A r) (trades s2)\<rparr>)"
      by (simp add: deleteTrade_def)
    show "tradesOf A (s1\<lparr>trades := filter (\<lambda>r. \<not> matches tradeId A r) (trades s1)\<rparr>)
        = tradesOf A (s2\<lparr>trades := filter (\<lambda>r. \<not> matches tradeId A r) (trades s2)\<rparr>)"
      by (simp only: tradesOf_deleted assms(1))
    show "tradesOf B (s1\<lparr>trades := filter (\<lambda>r. \<not> matches tradeId A r) (trades s1)\<rparr>) = tradesOf B s1"
      by (simp only: tradesOf_deleted tradesOf_other_deleted [OF assms(2)])
  qed
qed

text \<open>
  \<open>alice\<close> reads her trades and statistics, creates a trade, and updates and deletes
  with the identifier \<open>t5\<close> of the trade of \<open>bob\<close>, in a store with and in a store without
  that trade: the results agree, and the trade of \<open>bob\<close> stays.
\<close>

theorem operations_scoped_by_owner_witness:
  "tradesOf ''alice'' statsStore = tradesOf ''alice'' statsStoreAlice
   \<and> ''bob'' \<noteq> ''alice''
   \<and> tradesOf ''bob'' statsStore = [closedRow ''t5'' ''bob'' 259200000 (-7)]
   \<and> tradesOf ''bob'' statsStoreAlice = []
   \<and> getTrades ''alice'' None statsStore = getTrades ''alice'' None statsStoreAlice
   \<and> getTradesByDateRange ''alice'' 0 259200000 statsStore
       = getTradesByDateRange ''alice'' 0 259200000 statsStoreAlice
   \<and> getTradingStats 0 259205000 ''alice'' statsStore
       = getTradingStats 0 259205000 ''alice'' statsStoreAlice
   \<and> createTrade ''t9'' 259205000 ''alice'' openInput statsStore
       = Inr (openRow ''t9'' ''alice'' 259205000,
              statsStore\<lparr>trades := trades statsStore @ [openRow ''t9'' ''alice'' 259205000]\<rparr>)
   \<and> createTrade ''t9'' 259205000 ''alice'' openInput statsStoreAlice
       = Inr (openRow ''t9'' ''alice'' 259205000,
              statsStoreAlice\<lparr>trades := trades statsStoreAlice @ [openRow ''t9'' ''alice'' 259205000]\<rparr>)
   \<and> tradesOf ''bob'' (statsStore\<lparr>trades := trades statsStore @ [openRow ''t9'' ''alice'' 259205000]\<rparr>)
       = tradesOf ''bob'' statsStore
   \<and> tradesOf ''alice'' (statsStoreAlice\<lparr>trades := trades statsStoreAlice @ [openRow ''t9'' ''alice'' 259205000]\<rparr>)
       = tradesOf ''alice'' (statsStore\<lparr>trades := trades statsStore @ [openRow ''t9'' ''alice'' 259205000]\<rparr>)
   \<and> updateTrade 259205000 ''t5'' ''alice'' bothPrices statsStore = Inr (None, statsStore)
   \<and> updateTrade 259205000 ''t5'' ''alice'' bothPrices statsStoreAlice = Inr (None, statsStoreAlice)
   \<and> deleteTrade ''t5'' ''alice'' statsStore = Inr statsStore
   \<and> deleteTrade ''t5'' ''alice'' statsStoreAlice = Inr statsStoreAlice"
proof -
  have h: "tradesOf ''alice'' statsStore = tradesOf ''alice'' statsStoreAlice"
    by (simp add: statsStoreAlice_def tradesOf_def)
  have d: "''bob'' \<noteq> ''alice''"
    by simp
  have b: "tradesOf ''bob'' statsStore = [closedRow ''t5'' ''bob'' 259200000 (-7)]"
    "tradesOf ''bob'' statsStoreAlice = []"
    by (simp_all add: statsStoreAlice_def example_defs)
  have c: "createTrade ''t9'' 259205000 ''alice'' openInput statsStore
       = Inr (openRow ''t9'' ''alice'' 259205000,
              statsStore\<lparr>trades := trades statsStore @ [openRow ''t9'' ''alice'' 259205000]\<rparr>)"
    by (simp add: createTrade_def Let_def insertRow_def openInput_def longInput_def example_defs)
  have c2: "createTrade ''t9'' 259205000 ''alice'' openInput statsStoreAlice
       = Inr (openRow ''t9'' ''alice'' 259205000,
              statsStoreAlice\<lparr>trades := trades statsStoreAlice @ [openRow ''t9'' ''alice'' 259205000]\<rparr>)"
    by (simp add: createTrade_def Let_def insertRow_def openInput_def longInput_def
        statsStoreAlice_def example_defs)
  have n: "\<forall>r\<in>set (trades statsStore). \<not> matches ''t5'' ''alice'' r"
    "\<forall>r\<in>set (trades statsStoreAlice). \<not> matches ''t5'' ''alice'' r"
    by (simp_all add: matches_def statsStoreAlice_def example_defs)
  have u: "updateTrade 259205000 ''t5'' ''alice'' bothPrices statsStore = Inr (None, statsStore)"
    "updateTrade 259205000 ''t5'' ''alice'' bothPrices statsStoreAlice = Inr (None, statsStoreAlice)"
    using n by (simp_all add: updateTrade_eq map_no_match find_None_iff)
  have e: "deleteTrade ''t5'' ''alice'' statsStore = Inr statsStore"
    "deleteTrade ''t5'' ''alice'' statsStoreAlice = Inr statsStoreAlice"
    using n by (simp_all add: deleteTrade_def)
  note t = operations_scoped_by_owner [OF h d, where limit = None and startDate = 0
      and endDate = 259200000 and tz = 0 and now = 259205000 and newId = "''t9''"
      and trade = openInput and tradeId = "''t5''" and upd = bothPrices]
  have "getTrades ''alice'' None statsStore = getTrades ''alice'' None statsStoreAlice"
    using t by simp
  moreover have "getTradesByDateRange ''alice'' 0 259200000 statsStore
       = getTradesByDateRange ''alice'' 0 259200000 statsStoreAlice"
    using t by simp
  moreover have "getTradingStats 0 259205000 ''alice'' statsStore
       = getTradingStats 0 259205000 ''alice'' statsStoreAlice"
    using t by simp
  moreover have "tradesOf ''bob'' (statsStore\<lparr>trades := trades statsStore @ [openRow ''t9'' ''alice'' 259205000]\<rparr>)
       = tradesOf ''bob'' statsStore"
    using t c by blast
  moreover have "tradesOf ''alice'' (statsStoreAlice\<lparr>trades := trades statsStoreAlice @ [openRow ''t9'' ''alice'' 259205000]\<rparr>)
       = tradesOf ''alice'' (statsStore\<lparr>trades := trades statsStore @ [openRow ''t9'' ''alice'' 259205000]\<rparr>)"
    using t c c2 by blast
  ultimately show ?thesis
    using h d b c c2 u e by (intro conjI)
qed

end
